theory Spec2Isabelle
  imports Complex_Main
begin

section \<open>ciftify\_meants: the mask reconciliation and region aggregation of \<open>run_ciftify_meants\<close>\<close>

text \<open>
  The theory embeds lines 190 to 237 of \<^verbatim>\<open>ciftify/bin/ciftify_meants.py\<close>: everything
  \<open>run_ciftify_meants\<close> does once the three arrays \<open>data\<close>, \<open>seed_data\<close> and
  \<open>mask_data\<close> are loaded. File type detection and loading (lines 83 to 187) are not
  modelled; their results are the parameters of the model.

  Numbers. The arrays hold IEEE doubles. The model idealises them as exact reals, so
  rounding, overflow and NaN or infinite \<^emph>\<open>inputs\<close> are outside it. The one NaN the program
  itself manufactures from finite input, the mean (and standard deviation) of an empty
  selection, is kept: a computed statistic is a \<open>float64\<close>, either \<open>Val x\<close> or \<open>NaN\<close>.
\<close>

subsection \<open>Arrays and numpy primitives\<close>

datatype float64 = Val real | NaN

text \<open>A two-dimensional numpy array: its shape and its rows.\<close>

record ndarray =
  shape0 :: nat
  shape1 :: nat
  cells :: "real list list"

definition wf_ndarray :: "ndarray \<Rightarrow> bool" where
  "wf_ndarray a \<longleftrightarrow>
     length (cells a) = shape0 a \<and> list_all (\<lambda>r. length r = shape1 a) (cells a)"

text \<open>\<open>x > 0\<close> and \<open>x != 0\<close> on a computed statistic: every comparison with NaN is false
  except \<open>!=\<close>, which is true.\<close>

fun gt0 :: "float64 \<Rightarrow> bool" where
  "gt0 (Val x) = (0 < x)"
| "gt0 NaN = False"

fun ne0 :: "float64 \<Rightarrow> bool" where
  "ne0 (Val x) = (x \<noteq> 0)"
| "ne0 NaN = True"

text \<open>\<open>np.mean\<close> of a one-dimensional array; the mean of no element is NaN (numpy warns and
  returns NaN, it does not raise).\<close>

definition np_mean :: "real list \<Rightarrow> float64" where
  "np_mean xs = (if xs = [] then NaN else Val (sum_list xs / real (length xs)))"

text \<open>\<open>np.std\<close>: \<open>sqrt(mean(abs(x - x.mean()) ** 2))\<close>.\<close>

definition np_std :: "real list \<Rightarrow> float64" where
  "np_std xs =
     (case np_mean xs of
        NaN \<Rightarrow> NaN
      | Val mu \<Rightarrow>
          (case np_mean (map (\<lambda>x. \<bar>x - mu\<bar> ^ 2) xs) of
             NaN \<Rightarrow> NaN
           | Val v \<Rightarrow> Val (sqrt v)))"

text \<open>\<open>np.where(cond)[0]\<close> on a one-dimensional array: the indices where the condition
  holds, ascending.\<close>

definition np_where :: "('a \<Rightarrow> bool) \<Rightarrow> 'a list \<Rightarrow> nat list" where
  "np_where P xs = filter (\<lambda>i. P (xs ! i)) [0..<length xs]"

text \<open>\<open>np.where(cond)[0]\<close> on a two-dimensional array: the row index of every cell where
  the condition holds, in row-major order (a row with several such cells is repeated).\<close>

definition np_where0 :: "(real \<Rightarrow> bool) \<Rightarrow> ndarray \<Rightarrow> nat list" where
  "np_where0 P a =
     concat (map (\<lambda>i. replicate (length (filter P (cells a ! i))) i) [0..<length (cells a)])"

text \<open>\<open>np.unique\<close>: the sorted distinct values (of the flattened array).\<close>

definition np_unique :: "'a::linorder list \<Rightarrow> 'a list" where
  "np_unique xs = sort (remdups xs)"

definition ravel :: "ndarray \<Rightarrow> real list" where
  "ravel a = concat (cells a)"

text \<open>\<open>np.intersect1d\<close>: the sorted distinct values that are in both arrays.\<close>

definition intersect1d :: "nat list \<Rightarrow> nat list \<Rightarrow> nat list" where
  "intersect1d a b = filter (\<lambda>x. x \<in> set b) (np_unique a)"

text \<open>\<open>a[indices, :]\<close>: the rows at the given indices, in that order.\<close>

definition take_rows :: "ndarray \<Rightarrow> nat list \<Rightarrow> real list list" where
  "take_rows a indices = map (\<lambda>i. cells a ! i) indices"

text \<open>\<open>np.mean(rows, axis=0)\<close> of an array with \<open>ncols\<close> columns: one mean per column.\<close>

definition np_mean_axis0 :: "nat \<Rightarrow> real list list \<Rightarrow> float64 list" where
  "np_mean_axis0 ncols rs = map (\<lambda>t. np_mean (map (\<lambda>r. r ! t) rs)) [0..<ncols]"

text \<open>\<open>np.multiply(seed_data, mask_data)\<close> where \<open>seed_data\<close> has one column and both have
  the same number of rows: the seed column is broadcast over the columns of the mask.\<close>

definition np_multiply :: "ndarray \<Rightarrow> ndarray \<Rightarrow> real list" where
  "np_multiply seed_data mask_data =
     concat (map (\<lambda>i. map (\<lambda>m. hd (cells seed_data ! i) * m) (cells mask_data ! i))
               [0..<length (cells seed_data)])"

subsection \<open>Errors\<close>

text \<open>
  The four \<open>sys.exit(message)\<close> calls of the modelled lines, named as the specification
  names them, and the Python exceptions the lines can raise.
  \<^item> \<open>ShapeMismatchFuncSeed\<close>: line 192, func and seed differ in the number of voxels.
  \<^item> \<open>ShapeMismatchMaskSeed\<close>: line 208, mask and seed differ in the number of voxels.
  \<^item> \<open>RegionFullyMasked\<close>: line 212, "At least 1 ROI completely outside mask".
  \<^item> \<open>UnknownRegionLabel\<close>: line 221, "ROI ..., not in seed map labels".
  \<^item> \<open>AttributeError\<close>: line 195 reads \<open>logger.WARNING\<close>; a \<open>logging.Logger\<close> has the
    method \<open>warning\<close> and no attribute \<open>WARNING\<close>.
  \<^item> \<open>ValueError\<close>, \<open>ZeroDivisionError\<close>: raised by \<open>np.average\<close> (weights of the wrong
    length; weights that sum to zero).
  \<^item> \<open>UnboundLocalError\<close>: line 237 reads \<open>rois\<close>, which only the branch of lines 219 to
    225 assigns.
\<close>

datatype error =
    ShapeMismatchFuncSeed
  | ShapeMismatchMaskSeed
  | RegionFullyMasked
  | UnknownRegionLabel
  | AttributeError
  | ValueError
  | ZeroDivisionError
  | UnboundLocalError

subsection \<open>The stages of \<open>run_ciftify_meants\<close>\<close>

text \<open>Lines 198 to 202: the implicit mask.\<close>

definition std_nonzero :: "ndarray \<Rightarrow> nat list" where
  "std_nonzero data = np_where gt0 (map np_std (cells data))"

definition m_nonzero :: "ndarray \<Rightarrow> nat list" where
  "m_nonzero data = np_where ne0 (map np_mean (cells data))"

text \<open>\<open>mask_indices\<close> as it stands after line 210 (after line 202 when there is no mask).\<close>

definition mask_indices :: "ndarray \<Rightarrow> ndarray option \<Rightarrow> nat list" where
  "mask_indices data msk =
     (let mi = intersect1d (std_nonzero data) (m_nonzero data)
      in case msk of
           None \<Rightarrow> mi
         | Some mask_data \<Rightarrow>
             (let mask_idx = np_where0 (\<lambda>x. 0 < x) mask_data
              in intersect1d mi mask_idx))"

text \<open>Lines 204 to 212: the two exits of the mask branch.\<close>

definition n_seeds :: "ndarray \<Rightarrow> nat" where
  "n_seeds seed_data = length (np_unique (ravel seed_data))"

definition mask_check :: "ndarray \<Rightarrow> ndarray option \<Rightarrow> error option" where
  "mask_check seed_data msk =
     (case msk of
        None \<Rightarrow> None
      | Some mask_data \<Rightarrow>
          if shape0 seed_data \<noteq> shape0 mask_data then Some ShapeMismatchMaskSeed
          else if length (np_unique (np_multiply seed_data mask_data)) \<noteq> n_seeds seed_data
          then Some RegionFullyMasked
          else None)"

text \<open>\<open>np.average(a, axis=0, weights=w)\<close> for a two-dimensional \<open>a\<close> with \<open>ncols\<close> columns
  and one-dimensional \<open>w\<close>: the length check, the zero-sum check, then
  \<open>np.multiply(a, w).sum(0) / w.sum()\<close>.\<close>

definition np_average :: "nat \<Rightarrow> real list list \<Rightarrow> real list \<Rightarrow> error + float64 list" where
  "np_average ncols a w =
     (if length w \<noteq> length a then Inl ValueError
      else let scl = sum_list w
           in if scl = 0 then Inl ZeroDivisionError
              else Inr (map (\<lambda>t. Val (sum_list (map2 (\<lambda>r wi. r ! t * wi) a w) / scl))
                          [0..<ncols]))"

text \<open>Lines 219 to 225. \<open>roi_label\<close> is \<open>None\<close> when the option is absent (or the empty
  string), otherwise the value \<open>float(roi_label)\<close>.\<close>

definition select_rois :: "ndarray \<Rightarrow> real option \<Rightarrow> error + real list" where
  "select_rois seed_data roi_label =
     (case roi_label of
        Some l \<Rightarrow>
          if l \<notin> set (drop 1 (np_unique (ravel seed_data))) then Inl UnknownRegionLabel
          else Inr [l]
      | None \<Rightarrow> Inr (drop 1 (np_unique (ravel seed_data))))"

text \<open>Lines 230 to 232: the body of the loop, for one label.\<close>

definition idxx :: "ndarray \<Rightarrow> nat list \<Rightarrow> real \<Rightarrow> nat list" where
  "idxx seed_data mi roi = intersect1d mi (np_where0 (\<lambda>x. x = roi) seed_data)"

definition roi_row :: "ndarray \<Rightarrow> ndarray \<Rightarrow> nat list \<Rightarrow> real \<Rightarrow> float64 list" where
  "roi_row data seed_data mi roi =
     np_mean_axis0 (shape1 data) (take_rows data (idxx seed_data mi roi))"

text \<open>Lines 214 to 232: \<open>out_data\<close>, and \<open>rois\<close> where it is assigned.\<close>

definition aggregate ::
  "ndarray \<Rightarrow> ndarray \<Rightarrow> nat list \<Rightarrow> real option \<Rightarrow> bool
     \<Rightarrow> error + (float64 list list \<times> real list option)" where
  "aggregate data seed_data mi roi_label weighted =
     (if weighted then
        (case np_average (shape1 data) (take_rows data mi) (concat (take_rows seed_data mi)) of
           Inl e \<Rightarrow> Inl e
         | Inr row \<Rightarrow> Inr ([row], None))
      else
        (case select_rois seed_data roi_label of
           Inl e \<Rightarrow> Inl e
         | Inr rois \<Rightarrow> Inr (map (roi_row data seed_data mi) rois, Some rois)))"

text \<open>Lines 190 to 232: everything up to the value of \<open>out_data\<close>.\<close>

definition compute ::
  "ndarray \<Rightarrow> ndarray \<Rightarrow> ndarray option \<Rightarrow> real option \<Rightarrow> bool
     \<Rightarrow> error + (float64 list list \<times> real list option)" where
  "compute data seed_data msk roi_label weighted =
     (if shape0 data \<noteq> shape0 seed_data then Inl ShapeMismatchFuncSeed
      else if shape1 seed_data \<noteq> 1 then Inl AttributeError
      else case mask_check seed_data msk of
             Some e \<Rightarrow> Inl e
           | None \<Rightarrow> aggregate data seed_data (mask_indices data msk) roi_label weighted)"

text \<open>The files the run leaves behind and how it ends.\<close>

record outcome =
  outputcsv :: "float64 list list option"
  outputlabels :: "real list option"
  raised :: "error option"

text \<open>Lines 190 to 237. \<open>want_labels\<close> says whether \<open>--outputlabels\<close> was given.\<close>

definition run_ciftify_meants ::
  "ndarray \<Rightarrow> ndarray \<Rightarrow> ndarray option \<Rightarrow> real option \<Rightarrow> bool \<Rightarrow> bool \<Rightarrow> outcome" where
  "run_ciftify_meants data seed_data msk roi_label weighted want_labels =
     (case compute data seed_data msk roi_label weighted of
        Inl e \<Rightarrow> \<lparr>outputcsv = None, outputlabels = None, raised = Some e\<rparr>
      | Inr (out_data, rois) \<Rightarrow>
          if want_labels then
            (case rois of
               None \<Rightarrow> \<lparr>outputcsv = Some out_data, outputlabels = None,
                         raised = Some UnboundLocalError\<rparr>
             | Some ls \<Rightarrow> \<lparr>outputcsv = Some out_data, outputlabels = Some ls, raised = None\<rparr>)
          else \<lparr>outputcsv = Some out_data, outputlabels = None, raised = None\<rparr>)"

subsection \<open>Vocabulary of the statements\<close>

text \<open>\<open>seed_data[i, 0]\<close>: the label (or, in weighted mode, the weight) of sample \<open>i\<close>.\<close>

definition seed_value :: "ndarray \<Rightarrow> nat \<Rightarrow> real" where
  "seed_value seed_data i = hd (cells seed_data ! i)"

text \<open>The membership test that the index computations of lines 198 to 210 amount to.\<close>

definition valid_sample :: "ndarray \<Rightarrow> ndarray option \<Rightarrow> nat \<Rightarrow> bool" where
  "valid_sample data msk i \<longleftrightarrow>
     gt0 (np_std (cells data ! i)) \<and> ne0 (np_mean (cells data ! i)) \<and>
     (case msk of
        None \<Rightarrow> True
      | Some mask_data \<Rightarrow>
          i < length (cells mask_data) \<and> list_ex (\<lambda>x. 0 < x) (cells mask_data ! i))"

text \<open>The array without row \<open>j\<close>, and the index that row \<open>i\<close> of it had before.\<close>

definition remove_row :: "nat \<Rightarrow> ndarray \<Rightarrow> ndarray" where
  "remove_row j a =
     \<lparr>shape0 = shape0 a - 1, shape1 = shape1 a,
      cells = take j (cells a) @ drop (Suc j) (cells a)\<rparr>"

definition skip :: "nat \<Rightarrow> nat \<Rightarrow> nat" where
  "skip j i = (if i < j then i else Suc i)"

subsection \<open>Concrete inputs\<close>

text \<open>Four samples, three timepoints, every sample with positive standard deviation and
  nonzero mean; the seed labels are 1, 1, 2, 2 (no background sample).\<close>

definition data_A :: ndarray where
  "data_A = \<lparr>shape0 = 4, shape1 = 3, cells = [[1, 2, 3], [3, 4, 8], [1, 0, 2], [5, 8, 2]]\<rparr>"

definition seed_A :: ndarray where
  "seed_A = \<lparr>shape0 = 4, shape1 = 1, cells = [[1], [1], [2], [2]]\<rparr>"

text \<open>Sample 1 is constant, sample 2 has mean zero; the mask drops sample 3.\<close>

definition data_V :: ndarray where
  "data_V = \<lparr>shape0 = 4, shape1 = 2, cells = [[1, 3], [5, 5], [-1, 1], [2, 4]]\<rparr>"

definition mask_V :: ndarray where
  "mask_V = \<lparr>shape0 = 4, shape1 = 1, cells = [[1], [1], [1], [0]]\<rparr>"

text \<open>Two samples, two timepoints, with seeds and masks of two samples.\<close>

definition data_2 :: ndarray where
  "data_2 = \<lparr>shape0 = 2, shape1 = 2, cells = [[1, 3], [2, 6]]\<rparr>"

definition seed_12 :: ndarray where
  "seed_12 = \<lparr>shape0 = 2, shape1 = 1, cells = [[1], [2]]\<rparr>"

definition seed_11 :: ndarray where
  "seed_11 = \<lparr>shape0 = 2, shape1 = 1, cells = [[1], [1]]\<rparr>"

definition mask_10 :: ndarray where
  "mask_10 = \<lparr>shape0 = 2, shape1 = 1, cells = [[1], [0]]\<rparr>"

definition seed_two_columns :: ndarray where
  "seed_two_columns = \<lparr>shape0 = 2, shape1 = 2, cells = [[1, 1], [2, 2]]\<rparr>"

text \<open>Continuous weights, weights that are all negative, weights that sum to zero.\<close>

definition seed_W :: ndarray where
  "seed_W = \<lparr>shape0 = 4, shape1 = 1, cells = [[1/10], [1/2], [9/10], [1/5]]\<rparr>"

definition seed_neg :: ndarray where
  "seed_neg = \<lparr>shape0 = 2, shape1 = 1, cells = [[-1], [-1]]\<rparr>"

definition seed_pm :: ndarray where
  "seed_pm = \<lparr>shape0 = 2, shape1 = 1, cells = [[1], [-1]]\<rparr>"

text \<open>A seed for \<open>data_A\<close> with a background sample and the labels 1 and 2.\<close>

definition seed_B :: ndarray where
  "seed_B = \<lparr>shape0 = 4, shape1 = 1, cells = [[0], [1], [1], [2]]\<rparr>"

text \<open>The only sample of label 1 is constant in time.\<close>

definition data_D :: ndarray where
  "data_D = \<lparr>shape0 = 2, shape1 = 2, cells = [[1, 2], [5, 5]]\<rparr>"

definition seed_01 :: ndarray where
  "seed_01 = \<lparr>shape0 = 2, shape1 = 1, cells = [[0], [1]]\<rparr>"

text \<open>Sample 2 is constant and is the only sample of label 2.\<close>

definition data_3 :: ndarray where
  "data_3 = \<lparr>shape0 = 3, shape1 = 2, cells = [[1, 2], [3, 5], [4, 4]]\<rparr>"

definition seed_012 :: ndarray where
  "seed_012 = \<lparr>shape0 = 3, shape1 = 1, cells = [[0], [1], [2]]\<rparr>"

text \<open>Sample 1 is constant; it carries label 1 together with sample 2. A mask that keeps
  every sample.\<close>

definition data_5 :: ndarray where
  "data_5 = \<lparr>shape0 = 4, shape1 = 2, cells = [[1, 2], [4, 4], [3, 5], [4, 6]]\<rparr>"

definition mask_1111 :: ndarray where
  "mask_1111 = \<lparr>shape0 = 4, shape1 = 1, cells = [[1], [1], [1], [1]]\<rparr>"

definition mask_111 :: ndarray where
  "mask_111 = \<lparr>shape0 = 3, shape1 = 1, cells = [[1], [1], [1]]\<rparr>"

section \<open>Properties\<close>

subsection \<open>Facts about the numpy primitives\<close>

lemma set_np_unique: "set (np_unique xs) = set xs"
  by (simp add: np_unique_def)

lemma sorted_np_unique: "sorted (np_unique xs)"
  by (simp add: np_unique_def)

lemma distinct_np_unique: "distinct (np_unique xs)"
  by (simp add: np_unique_def)

lemma np_unique_cong: "set xs = set ys \<Longrightarrow> np_unique xs = np_unique ys"
  by (metis set_np_unique sorted_np_unique distinct_np_unique sorted_distinct_set_unique)

lemma set_intersect1d: "set (intersect1d a b) = set a \<inter> set b"
  by (auto simp: intersect1d_def set_np_unique)

lemma sorted_intersect1d: "sorted (intersect1d a b)"
  by (simp add: intersect1d_def sorted_np_unique sorted_wrt_filter)

lemma distinct_intersect1d: "distinct (intersect1d a b)"
  by (simp add: intersect1d_def distinct_np_unique)

lemma set_np_where: "set (np_where P xs) = {i. i < length xs \<and> P (xs ! i)}"
  by (auto simp: np_where_def)

lemma set_np_where0:
  "set (np_where0 P a) = {i. i < length (cells a) \<and> (\<exists>x\<in>set (cells a ! i). P x)}"
  by (auto simp: np_where0_def filter_empty_conv)

lemma length_np_unique: "length (np_unique xs) = card (set xs)"
  by (metis distinct_card distinct_np_unique set_np_unique)

text \<open>When 0 is the least value, dropping the first unique value drops exactly the 0.\<close>

lemma drop_least_np_unique:
  fixes xs :: "real list"
  assumes "0 \<in> set xs" "\<forall>x\<in>set xs. 0 \<le> x"
  shows "drop 1 (np_unique xs) = np_unique (filter (\<lambda>x. x \<noteq> 0) xs)"
proof -
  obtain y ys where u: "np_unique xs = y # ys"
    using assms(1) set_np_unique [of xs] by (cases "np_unique xs") auto
  have s: "sorted (y # ys)" and d: "distinct (y # ys)" and e: "set (y # ys) = set xs"
    using sorted_np_unique [of xs] distinct_np_unique [of xs] set_np_unique [of xs]
    by (simp_all add: u)
  have "y = 0"
  proof -
    have "0 \<in> set (y # ys)" using assms(1) e by simp
    then have "y \<le> 0" using s by auto
    moreover have "0 \<le> y" using assms(2) e by auto
    ultimately show ?thesis by simp
  qed
  have "ys = np_unique (filter (\<lambda>x. x \<noteq> 0) xs)"
  proof (rule sorted_distinct_set_unique)
    show "sorted ys" "distinct ys" using s d by simp_all
    show "sorted (np_unique (filter (\<lambda>x. x \<noteq> 0) xs))"
      "distinct (np_unique (filter (\<lambda>x. x \<noteq> 0) xs))"
      by (rule sorted_np_unique, rule distinct_np_unique)
    show "set ys = set (np_unique (filter (\<lambda>x. x \<noteq> 0) xs))"
      using d e \<open>y = 0\<close> by (auto simp: set_np_unique)
  qed
  then show ?thesis by (simp add: u)
qed

lemma nonzero_count:
  fixes xs :: "real list"
  shows "length (np_unique xs) =
     length (np_unique (filter (\<lambda>x. x \<noteq> 0) xs)) + (if 0 \<in> set xs then 1 else 0)"
proof -
  have "set (filter (\<lambda>x. x \<noteq> 0) xs) = set xs - {0}" by auto
  then have "card (set (filter (\<lambda>x. x \<noteq> 0) xs)) = card (set xs - {0})" by simp
  also have "\<dots> = card (set xs) - (if 0 \<in> set xs then 1 else 0)" by simp
  finally show ?thesis
    using card_gt_0_iff [of "set xs"] by (auto simp: length_np_unique Suc_leI)
qed

text \<open>An ascending list of distinct indices is the filter of the index range.\<close>

lemma sorted_distinct_eq_filter_upt:
  assumes "sorted xs" "distinct xs" "set xs = {i. i < n \<and> Q i}"
  shows "xs = filter Q [0..<n]"
proof (rule sorted_distinct_set_unique)
  show "sorted (filter Q [0..<n])" by (simp add: sorted_wrt_filter)
  show "distinct (filter Q [0..<n])" by simp
  show "set xs = set (filter Q [0..<n])" using assms(3) by auto
qed (use assms in auto)

lemma wf_row_length:
  "wf_ndarray a \<Longrightarrow> i < shape0 a \<Longrightarrow> length (cells a ! i) = shape1 a"
  by (simp add: wf_ndarray_def list_all_length)

lemma wf_length_cells: "wf_ndarray a \<Longrightarrow> length (cells a) = shape0 a"
  by (simp add: wf_ndarray_def)

subsection \<open>The reconciled valid-sample set\<close>

lemma set_mask_indices:
  "set (mask_indices data msk) = {i. i < length (cells data) \<and> valid_sample data msk i}"
  by (cases msk)
     (auto simp: mask_indices_def Let_def set_intersect1d set_np_where set_np_where0
        std_nonzero_def m_nonzero_def valid_sample_def list_ex_iff)

lemma sorted_mask_indices: "sorted (mask_indices data msk)"
  by (cases msk) (simp_all add: mask_indices_def Let_def sorted_intersect1d)

lemma distinct_mask_indices: "distinct (mask_indices data msk)"
  by (cases msk) (simp_all add: mask_indices_def Let_def distinct_intersect1d)

lemma mask_indices_filter:
  "mask_indices data msk = filter (valid_sample data msk) [0..<length (cells data)]"
  using sorted_mask_indices distinct_mask_indices set_mask_indices
  by (rule sorted_distinct_eq_filter_upt)

lemma mask_indices_bound: "set (mask_indices data msk) \<subseteq> {..<length (cells data)}"
  by (auto simp: set_mask_indices)

text \<open>
  Claim C3. After lines 198 to 210, \<open>mask_indices\<close> holds exactly the sample indices whose
  time series has standard deviation \<open>> 0\<close> and mean \<open>\<noteq> 0\<close>; with a mask, only those of
  them where the mask is \<open>> 0\<close> (for a mask of one column the row \<open>cells mask_data ! i\<close> is
  the single mask value of sample \<open>i\<close>); without a mask the filtered set is left as it is.
  The indices are ascending and without repetition.
\<close>

theorem mask_indices_reconciled:
  "set (mask_indices data msk) =
     {i. i < length (cells data) \<and> gt0 (np_std (cells data ! i)) \<and> ne0 (np_mean (cells data ! i))}
     \<inter> (case msk of
          None \<Rightarrow> UNIV
        | Some mask_data \<Rightarrow>
            {i. i < length (cells mask_data) \<and> (\<exists>x\<in>set (cells mask_data ! i). 0 < x)})
   \<and> sorted (mask_indices data msk) \<and> distinct (mask_indices data msk)"
  by (cases msk)
     (auto simp: mask_indices_def Let_def set_intersect1d set_np_where set_np_where0
        std_nonzero_def m_nonzero_def sorted_intersect1d distinct_intersect1d)

theorem mask_indices_reconciled_witness:
  "0 \<in> set (mask_indices data_V (Some mask_V)) \<and> 1 \<notin> set (mask_indices data_V (Some mask_V))
   \<and> 2 \<notin> set (mask_indices data_V (Some mask_V)) \<and> 3 \<notin> set (mask_indices data_V (Some mask_V))
   \<and> 3 \<in> set (mask_indices data_V None) \<and> 1 \<notin> set (mask_indices data_V None)"
  using mask_indices_reconciled [of data_V "Some mask_V"] mask_indices_reconciled [of data_V None]
  by (simp add: data_V_def mask_V_def np_std_def np_mean_def)

subsection \<open>Evaluation on the concrete inputs\<close>

lemmas upt_unfold = upt_rec [of _ "numeral _"] upt_rec [of _ "Suc _"]

lemmas eval_defs =
  run_ciftify_meants_def compute_def aggregate_def mask_check_def mask_indices_def
  intersect1d_def std_nonzero_def m_nonzero_def np_where_def np_where0_def np_unique_def
  np_std_def np_mean_def select_rois_def ravel_def roi_row_def idxx_def take_rows_def
  np_mean_axis0_def np_average_def np_multiply_def n_seeds_def seed_value_def wf_ndarray_def
  upt_unfold

lemma mask_indices_data_2: "mask_indices data_2 None = [0, 1]"
  by (simp add: data_2_def eval_defs)

lemma mask_indices_data_A: "mask_indices data_A None = [0, 1, 2, 3]"
  by (simp add: data_A_def eval_defs)

lemma select_rois_seed_B: "select_rois seed_B None = Inr [1, 2]"
  by (simp add: seed_B_def eval_defs)

subsection \<open>The region selector\<close>

text \<open>
  Claim C5. The region list should be the ascending unique nonzero seed values, and a
  requested label should be accepted exactly when it is one of them. Lines 220 and 225 take
  \<open>np.unique(seed_data)[1:]\<close> instead: they drop the least value, whatever it is. On the
  seed 1, 1, 2, 2, which has no background sample, label 1 is dropped: the list of all
  labels is \<open>[2]\<close>, and a request for label 1 ends the run with "not in seed map labels".
\<close>

theorem select_rois_drops_least_label:
  "select_rois seed_A None = Inr [2] \<and> select_rois seed_A (Some 1) = Inl UnknownRegionLabel"
  by (simp add: select_rois_def seed_A_def np_unique_def ravel_def)

text \<open>On a seed that has a background sample and no negative value, the selector is the
  one of the claim.\<close>

lemma select_rois_with_background:
  assumes "0 \<in> set (ravel seed_data)" "\<forall>x\<in>set (ravel seed_data). 0 \<le> x"
  shows "select_rois seed_data None = Inr (np_unique (filter (\<lambda>x. x \<noteq> 0) (ravel seed_data)))"
    and "select_rois seed_data (Some l) =
      (if l \<in> set (ravel seed_data) \<and> l \<noteq> 0 then Inr [l] else Inl UnknownRegionLabel)"
proof -
  have d: "drop 1 (np_unique (ravel seed_data)) =
      np_unique (filter (\<lambda>x. x \<noteq> 0) (ravel seed_data))"
    using assms by (rule drop_least_np_unique)
  show "select_rois seed_data None =
      Inr (np_unique (filter (\<lambda>x. x \<noteq> 0) (ravel seed_data)))"
    unfolding select_rois_def d by simp
  show "select_rois seed_data (Some l) =
      (if l \<in> set (ravel seed_data) \<and> l \<noteq> 0 then Inr [l] else Inl UnknownRegionLabel)"
    unfolding select_rois_def d by (auto simp: set_np_unique)
qed

subsection \<open>The alignment stage\<close>

text \<open>
  Claim C8. A seed with more than one column should give a warning and the run should go
  on. Line 195 calls \<open>logger.WARNING\<close>, which a logger does not have, so the run ends
  there with an \<open>AttributeError\<close> and writes nothing.
\<close>

theorem two_column_seed_aborts:
  "run_ciftify_meants data_2 seed_two_columns None None False False =
     \<lparr>outputcsv = None, outputlabels = None, raised = Some AttributeError\<rparr>"
  by (simp add: run_ciftify_meants_def compute_def data_2_def seed_two_columns_def)

subsection \<open>The coarse completeness check\<close>

text \<open>
  Claim C4. The check should compare the number of distinct nonzero labels of the seed with
  the number of distinct nonzero values of seed times mask. Lines 206 and 211 count all
  distinct values, zero included. With the seed 1, 2 and the mask 1, 0 both counts are 2
  and the run goes on, although label 2 has its only sample (index 1) outside the mask.
  With the seed 1, 1 and the same mask the counts are 1 and 2 and the run ends with
  "At least 1 ROI completely outside mask", although label 1 keeps sample 0.
\<close>

theorem coarse_check_counts_zero:
  "mask_check seed_12 (Some mask_10) = None
   \<and> np_where0 (\<lambda>x. x = 2) seed_12 = [1]
   \<and> mask_indices data_2 (Some mask_10) = [0]
   \<and> mask_check seed_11 (Some mask_10) = Some RegionFullyMasked
   \<and> idxx seed_11 (mask_indices data_2 (Some mask_10)) 1 = [0]"
  by (simp add: seed_12_def seed_11_def mask_10_def data_2_def eval_defs)

text \<open>When the seed and the product agree on having a zero (as they do for a seed with a
  background sample inside a nonempty mask row), the check compares the nonzero counts.\<close>

lemma mask_check_nonzero_counts:
  assumes "0 \<in> set (ravel seed_data) \<longleftrightarrow> 0 \<in> set (np_multiply seed_data mask_data)"
    and "shape0 seed_data = shape0 mask_data"
  shows "mask_check seed_data (Some mask_data) = Some RegionFullyMasked \<longleftrightarrow>
     length (np_unique (filter (\<lambda>x. x \<noteq> 0) (np_multiply seed_data mask_data))) \<noteq>
     length (np_unique (filter (\<lambda>x. x \<noteq> 0) (ravel seed_data)))"
  using assms nonzero_count [of "ravel seed_data"] nonzero_count [of "np_multiply seed_data mask_data"]
  by (simp add: mask_check_def n_seeds_def)

subsection \<open>Weighted mode\<close>

lemma concat_singleton_rows:
  assumes "\<forall>i\<in>set is. length (rs ! i) = 1"
  shows "concat (map (\<lambda>i. rs ! i) is) = map (\<lambda>i. hd (rs ! i)) is"
  using assms
proof (induction "is")
  case Nil
  then show ?case by simp
next
  case (Cons i "is")
  then have "length (rs ! i) = 1" by simp
  then obtain x where "rs ! i = [x]"
    by (cases "rs ! i") auto
  with Cons show ?case by simp
qed

lemma weights_of_seed:
  assumes "wf_ndarray seed_data" "shape1 seed_data = 1" "set mi \<subseteq> {..<shape0 seed_data}"
  shows "concat (take_rows seed_data mi) = map (seed_value seed_data) mi"
proof -
  have "\<forall>i\<in>set mi. length (cells seed_data ! i) = 1"
    using assms wf_row_length by fastforce
  then have "concat (map (\<lambda>i. cells seed_data ! i) mi) = map (\<lambda>i. hd (cells seed_data ! i)) mi"
    by (rule concat_singleton_rows)
  then show ?thesis
    by (simp add: take_rows_def seed_value_def [abs_def])
qed

lemma map2_same: "map2 f (map g xs) (map h xs) = map (\<lambda>x. f (g x) (h x)) xs"
  by (induction xs) auto

lemma np_average_rows:
  assumes "distinct mi"
  shows "np_average ncols (take_rows data mi) (map (seed_value seed_data) mi) =
     (if (\<Sum>i\<in>set mi. seed_value seed_data i) = 0 then Inl ZeroDivisionError
      else Inr (map (\<lambda>t. Val ((\<Sum>i\<in>set mi. cells data ! i ! t * seed_value seed_data i)
                                 / (\<Sum>i\<in>set mi. seed_value seed_data i))) [0..<ncols]))"
  using assms
  by (simp add: np_average_def take_rows_def map2_same Let_def sum_list_distinct_conv_sum_set)

lemma compute_weighted:
  assumes "wf_ndarray data" "wf_ndarray seed_data"
    and "shape0 data = shape0 seed_data" "shape1 seed_data = 1"
    and "mask_check seed_data msk = None"
  shows "compute data seed_data msk roi_label True =
     (if (\<Sum>i\<in>set (mask_indices data msk). seed_value seed_data i) = 0
      then Inl ZeroDivisionError
      else Inr ([map (\<lambda>t. Val ((\<Sum>i\<in>set (mask_indices data msk).
                                    cells data ! i ! t * seed_value seed_data i)
                                 / (\<Sum>i\<in>set (mask_indices data msk). seed_value seed_data i)))
                   [0..<shape1 data]], None))"
proof -
  have "set (mask_indices data msk) \<subseteq> {..<shape0 seed_data}"
    using mask_indices_bound [of data msk] assms(1,3) by (simp add: wf_length_cells)
  with assms(2,4) have w: "concat (take_rows seed_data (mask_indices data msk)) =
      map (seed_value seed_data) (mask_indices data msk)"
    by (rule weights_of_seed)
  show ?thesis
    using assms(3,4,5)
    by (simp add: compute_def aggregate_def w np_average_rows distinct_mask_indices)
qed

text \<open>
  Claim C6. In weighted mode, when the earlier checks pass and the weights of the valid
  samples do not sum to zero, the run writes one row; at every timepoint \<open>t\<close> it is
  \<open>sum(value_i * weight_i) / sum(weight_i)\<close> over exactly the samples \<open>i\<close> of the
  reconciled valid-sample set, the weight of a sample being its seed value.
\<close>

theorem weighted_row:
  assumes "wf_ndarray data" "wf_ndarray seed_data"
    and "shape0 data = shape0 seed_data" "shape1 seed_data = 1"
    and "mask_check seed_data msk = None"
    and "(\<Sum>i\<in>set (mask_indices data msk). seed_value seed_data i) \<noteq> 0"
  shows "outputcsv (run_ciftify_meants data seed_data msk roi_label True want_labels) =
     Some [map (\<lambda>t. Val ((\<Sum>i\<in>set (mask_indices data msk).
                              cells data ! i ! t * seed_value seed_data i)
                           / (\<Sum>i\<in>set (mask_indices data msk). seed_value seed_data i)))
             [0..<shape1 data]]"
  using assms(6)
  by (simp add: run_ciftify_meants_def compute_weighted [OF assms(1-5)])

theorem weighted_row_witness:
  "outputcsv (run_ciftify_meants data_A seed_W None None True False) =
     Some [[Val (35 / 17), Val (38 / 17), Val (65 / 17)]]"
proof -
  have "wf_ndarray data_A" "wf_ndarray seed_W" "shape0 data_A = shape0 seed_W"
    "shape1 seed_W = 1" "mask_check seed_W None = None"
    by (simp_all add: data_A_def seed_W_def wf_ndarray_def mask_check_def)
  moreover have "(\<Sum>i\<in>set (mask_indices data_A None). seed_value seed_W i) \<noteq> 0"
    by (simp add: mask_indices_data_A seed_W_def seed_value_def)
  ultimately have
    "outputcsv (run_ciftify_meants data_A seed_W None None True False) =
       Some [map (\<lambda>t. Val ((\<Sum>i\<in>set (mask_indices data_A None).
                                cells data_A ! i ! t * seed_value seed_W i)
                             / (\<Sum>i\<in>set (mask_indices data_A None). seed_value seed_W i)))
               [0..<shape1 data_A]]"
    by (rule weighted_row)
  then show ?thesis
    unfolding mask_indices_data_A
    by (simp add: seed_W_def seed_value_def data_A_def upt_unfold)
qed

text \<open>
  Claim C7, as stated: negative weights make the run fail. They do not: with the weights
  \<open>-1, -1\<close> the run writes the row \<open>3/2, 9/2\<close> and raises nothing.
\<close>

theorem weighted_negative_weights_accepted:
  "seed_value seed_neg 0 < 0 \<and> seed_value seed_neg 1 < 0 \<and> mask_indices data_2 None = [0, 1]
   \<and> run_ciftify_meants data_2 seed_neg None None True False =
       \<lparr>outputcsv = Some [[Val (3 / 2), Val (9 / 2)]], outputlabels = None, raised = None\<rparr>"
  by (simp add: data_2_def seed_neg_def eval_defs)

text \<open>
  Claim C7, amended. In weighted mode, once the earlier checks have passed, the run fails
  in the averaging step exactly when the weights of the valid samples sum to zero (the
  \<open>ZeroDivisionError\<close> of \<open>np.average\<close>), and exactly then it writes no output; weights
  with a nonzero sum, negative ones included, are accepted.
\<close>

theorem weighted_fails_iff_zero_sum:
  assumes "wf_ndarray data" "wf_ndarray seed_data"
    and "shape0 data = shape0 seed_data" "shape1 seed_data = 1"
    and "mask_check seed_data msk = None"
  shows "(raised (run_ciftify_meants data seed_data msk roi_label True want_labels)
            = Some ZeroDivisionError
          \<longleftrightarrow> (\<Sum>i\<in>set (mask_indices data msk). seed_value seed_data i) = 0)
       \<and> (outputcsv (run_ciftify_meants data seed_data msk roi_label True want_labels) = None
          \<longleftrightarrow> (\<Sum>i\<in>set (mask_indices data msk). seed_value seed_data i) = 0)"
  by (simp add: run_ciftify_meants_def compute_weighted [OF assms])

theorem weighted_fails_iff_zero_sum_witness:
  "run_ciftify_meants data_2 seed_pm None None True False =
     \<lparr>outputcsv = None, outputlabels = None, raised = Some ZeroDivisionError\<rparr>"
proof -
  have "wf_ndarray data_2" "wf_ndarray seed_pm" "shape0 data_2 = shape0 seed_pm"
    "shape1 seed_pm = 1" "mask_check seed_pm None = None"
    by (simp_all add: data_2_def seed_pm_def wf_ndarray_def mask_check_def)
  from weighted_fails_iff_zero_sum [OF this, of None False]
  have "raised (run_ciftify_meants data_2 seed_pm None None True False) = Some ZeroDivisionError"
    and "outputcsv (run_ciftify_meants data_2 seed_pm None None True False) = None"
    by (simp_all add: mask_indices_data_2 seed_pm_def seed_value_def)
  moreover have "outputlabels (run_ciftify_meants data_2 seed_pm None None True False) = None"
    by (simp add: run_ciftify_meants_def split: sum.splits prod.splits)
  ultimately show ?thesis
    by (cases "run_ciftify_meants data_2 seed_pm None None True False") simp
qed

text \<open>
  Claim C10. In weighted mode no label list is assigned. With \<open>--outputlabels\<close> the run
  therefore never writes a label file and always ends with an error; whenever the
  aggregation itself succeeds, the output matrix is written first and the run then fails
  on the unbound \<open>rois\<close> of line 237.
\<close>

theorem weighted_labels_unbound:
  "outputlabels (run_ciftify_meants data seed_data msk roi_label True True) = None
   \<and> raised (run_ciftify_meants data seed_data msk roi_label True True) \<noteq> None
   \<and> (\<forall>out_data rois. compute data seed_data msk roi_label True = Inr (out_data, rois) \<longrightarrow>
        rois = None
        \<and> run_ciftify_meants data seed_data msk roi_label True True =
            \<lparr>outputcsv = Some out_data, outputlabels = None, raised = Some UnboundLocalError\<rparr>)"
  by (auto simp: run_ciftify_meants_def compute_def aggregate_def
      split: sum.splits option.splits if_splits)

theorem weighted_labels_unbound_witness:
  "compute data_2 seed_11 None None True = Inr ([[Val (3 / 2), Val (9 / 2)]], None)
   \<and> run_ciftify_meants data_2 seed_11 None None True True =
       \<lparr>outputcsv = Some [[Val (3 / 2), Val (9 / 2)]], outputlabels = None,
        raised = Some UnboundLocalError\<rparr>"
proof -
  have c: "compute data_2 seed_11 None None True = Inr ([[Val (3 / 2), Val (9 / 2)]], None)"
    by (simp add: data_2_def seed_11_def eval_defs)
  with weighted_labels_unbound [of data_2 seed_11 None None] show ?thesis
    by blast
qed

subsection \<open>Per-region mean mode\<close>

lemma set_idxx:
  "set (idxx seed_data mi roi) =
     {s \<in> set mi. s < length (cells seed_data) \<and> roi \<in> set (cells seed_data ! s)}"
  by (auto simp: idxx_def set_intersect1d set_np_where0)

lemma distinct_idxx: "distinct (idxx seed_data mi roi)"
  by (simp add: idxx_def distinct_intersect1d)

lemma set_idxx_one_column:
  assumes "wf_ndarray seed_data" "shape1 seed_data = 1" "set mi \<subseteq> {..<shape0 seed_data}"
  shows "set (idxx seed_data mi roi) = {s \<in> set mi. seed_value seed_data s = roi}"
proof -
  have "roi \<in> set (cells seed_data ! s) \<longleftrightarrow> seed_value seed_data s = roi"
    if "s \<in> set mi" for s
  proof -
    from that assms have "length (cells seed_data ! s) = 1"
      using wf_row_length by fastforce
    then obtain x where "cells seed_data ! s = [x]"
      by (cases "cells seed_data ! s") auto
    then show ?thesis by (auto simp: seed_value_def)
  qed
  moreover have "s < length (cells seed_data)" if "s \<in> set mi" for s
    using that assms(1,3) by (auto simp: wf_length_cells)
  ultimately show ?thesis
    unfolding set_idxx by blast
qed

lemma np_mean_distinct:
  assumes "distinct is"
  shows "np_mean (map f is) =
     (if set is = {} then NaN else Val ((\<Sum>i\<in>set is. f i) / real (card (set is))))"
  using assms by (simp add: np_mean_def sum_list_distinct_conv_sum_set distinct_card)

lemma length_roi_row: "length (roi_row data seed_data mi roi) = shape1 data"
  by (simp add: roi_row_def np_mean_axis0_def)

lemma roi_row_nth:
  assumes "t < shape1 data"
  shows "roi_row data seed_data mi roi ! t =
     (if set (idxx seed_data mi roi) = {} then NaN
      else Val ((\<Sum>s\<in>set (idxx seed_data mi roi). cells data ! s ! t)
                / real (card (set (idxx seed_data mi roi)))))"
  using assms
  by (simp add: roi_row_def np_mean_axis0_def take_rows_def o_def
      np_mean_distinct [OF distinct_idxx])

lemma roi_row_empty:
  "idxx seed_data mi roi = [] \<Longrightarrow> roi_row data seed_data mi roi = replicate (shape1 data) NaN"
  by (simp add: roi_row_def np_mean_axis0_def take_rows_def np_mean_def map_replicate_const)

lemma compute_per_region:
  assumes "shape0 data = shape0 seed_data" "shape1 seed_data = 1"
    and "mask_check seed_data msk = None"
  shows "compute data seed_data msk roi_label False =
     (case select_rois seed_data roi_label of
        Inl e \<Rightarrow> Inl e
      | Inr rois \<Rightarrow> Inr (map (roi_row data seed_data (mask_indices data msk)) rois, Some rois))"
  using assms by (simp add: compute_def aggregate_def)

text \<open>
  Claim C2. In per-region mean mode, when the earlier checks pass and the selector yields
  the list \<open>rois\<close>, the run writes one row per label, in the order of \<open>rois\<close>; row \<open>i\<close>
  has one entry per timepoint, and that entry is the arithmetic mean of the functional
  matrix over exactly the samples that carry the label \<open>rois ! i\<close> and are in the
  reconciled valid-sample set (when there is such a sample).
\<close>

theorem per_region_rows:
  assumes "wf_ndarray data" "wf_ndarray seed_data"
    and "shape0 data = shape0 seed_data" "shape1 seed_data = 1"
    and "mask_check seed_data msk = None"
    and "select_rois seed_data roi_label = Inr rois"
  shows "\<exists>out.
     run_ciftify_meants data seed_data msk roi_label False want_labels =
       \<lparr>outputcsv = Some out, outputlabels = (if want_labels then Some rois else None),
        raised = None\<rparr>
     \<and> length out = length rois
     \<and> (\<forall>i<length rois. length (out ! i) = shape1 data \<and>
          (\<forall>t<shape1 data.
             {s \<in> set (mask_indices data msk). seed_value seed_data s = rois ! i} \<noteq> {} \<longrightarrow>
             out ! i ! t =
               Val ((\<Sum>s | s \<in> set (mask_indices data msk) \<and> seed_value seed_data s = rois ! i.
                       cells data ! s ! t)
                    / real (card {s \<in> set (mask_indices data msk).
                                   seed_value seed_data s = rois ! i}))))"
proof -
  let ?mi = "mask_indices data msk"
  let ?out = "map (roi_row data seed_data ?mi) rois"
  have bound: "set ?mi \<subseteq> {..<shape0 seed_data}"
    using mask_indices_bound [of data msk] assms(1,3) by (simp add: wf_length_cells)
  have sel: "set (idxx seed_data ?mi roi) = {s \<in> set ?mi. seed_value seed_data s = roi}" for roi
    using assms(2,4) bound by (rule set_idxx_one_column)
  have "run_ciftify_meants data seed_data msk roi_label False want_labels =
       \<lparr>outputcsv = Some ?out, outputlabels = (if want_labels then Some rois else None),
        raised = None\<rparr>"
    by (simp add: run_ciftify_meants_def compute_per_region [OF assms(3-5)] assms(6))
  moreover have "length ?out = length rois" by simp
  moreover have "\<forall>i<length rois. length (?out ! i) = shape1 data \<and>
          (\<forall>t<shape1 data.
             {s \<in> set ?mi. seed_value seed_data s = rois ! i} \<noteq> {} \<longrightarrow>
             ?out ! i ! t =
               Val ((\<Sum>s | s \<in> set ?mi \<and> seed_value seed_data s = rois ! i. cells data ! s ! t)
                    / real (card {s \<in> set ?mi. seed_value seed_data s = rois ! i})))"
    by (simp add: length_roi_row roi_row_nth sel)
  ultimately show ?thesis by blast
qed

theorem per_region_rows_witness:
  "\<exists>out. run_ciftify_meants data_A seed_B None None False True =
       \<lparr>outputcsv = Some out, outputlabels = Some [1, 2], raised = None\<rparr>
     \<and> length out = 2 \<and> out ! 0 ! 0 = Val 2 \<and> out ! 0 ! 2 = Val 5 \<and> out ! 1 ! 1 = Val 8"
proof -
  have h: "wf_ndarray data_A" "wf_ndarray seed_B" "shape0 data_A = shape0 seed_B"
    "shape1 seed_B = 1" "mask_check seed_B None = None"
    by (simp_all add: data_A_def seed_B_def wf_ndarray_def mask_check_def)
  have s1: "{s \<in> set (mask_indices data_A None). seed_value seed_B s = [1, 2] ! 0} = {1, 2}"
    by (auto simp: mask_indices_data_A seed_B_def seed_value_def)
  have s2: "{s \<in> set (mask_indices data_A None). seed_value seed_B s = [1, 2] ! 1} = {3}"
    by (auto simp: mask_indices_data_A seed_B_def seed_value_def)
  from per_region_rows [OF h select_rois_seed_B, of True]
  obtain out where run: "run_ciftify_meants data_A seed_B None None False True =
       \<lparr>outputcsv = Some out, outputlabels = Some [1, 2], raised = None\<rparr>"
    and len: "length out = length [1, 2 :: real]"
    and rows: "\<forall>i<length [1, 2 :: real]. length (out ! i) = shape1 data_A \<and>
          (\<forall>t<shape1 data_A.
             {s \<in> set (mask_indices data_A None). seed_value seed_B s = [1, 2] ! i} \<noteq> {} \<longrightarrow>
             out ! i ! t =
               Val ((\<Sum>s | s \<in> set (mask_indices data_A None) \<and> seed_value seed_B s = [1, 2] ! i.
                       cells data_A ! s ! t)
                    / real (card {s \<in> set (mask_indices data_A None).
                                   seed_value seed_B s = [1, 2] ! i})))"
    by auto
  have t: "(0::nat) < shape1 data_A" "(1::nat) < shape1 data_A" "(2::nat) < shape1 data_A"
    by (simp_all add: data_A_def)
  have i: "(0::nat) < length [1, 2 :: real]" "(1::nat) < length [1, 2 :: real]"
    by simp_all
  note r00 = rows [THEN spec, of 0, THEN mp, OF i(1), THEN conjunct2,
      THEN spec, of 0, THEN mp, OF t(1), unfolded s1]
    and r02 = rows [THEN spec, of 0, THEN mp, OF i(1), THEN conjunct2,
      THEN spec, of 2, THEN mp, OF t(3), unfolded s1]
    and r11 = rows [THEN spec, of 1, THEN mp, OF i(2), THEN conjunct2,
      THEN spec, of 1, THEN mp, OF t(2), unfolded s2]
  have "out ! 0 ! 0 = Val 2"
    using r00 by (simp add: data_A_def)
  moreover have "out ! 0 ! 2 = Val 5"
    using r02 by (simp add: data_A_def)
  moreover have "out ! 1 ! 1 = Val 8"
    using r11 by (simp add: data_A_def)
  ultimately show ?thesis
    using run len by auto
qed

text \<open>
  Claim C1, as stated: a requested label with no valid sample makes the run fail with
  \<open>RegionFullyMasked\<close>. It does not: in \<open>data_D\<close> the only sample of label 1 is constant,
  the intersection of line 231 is empty, and the run writes a row of NaN and raises nothing.
\<close>

theorem per_region_empty_gives_nan:
  "select_rois seed_01 None = Inr [1] \<and> idxx seed_01 (mask_indices data_D None) 1 = []
   \<and> run_ciftify_meants data_D seed_01 None None False False =
       \<lparr>outputcsv = Some [[NaN, NaN]], outputlabels = None, raised = None\<rparr>"
  by (simp add: data_D_def seed_01_def eval_defs)

text \<open>
  Claim C1, amended. In per-region mean mode the loop of lines 229 to 232 checks nothing and
  raises nothing: whenever the checks before the loop pass and the label list \<open>rois\<close> is
  selected, the run ends without error and writes one row per label, also when a requested
  label has no sample in the reconciled valid-sample set; the row of such a label is NaN at
  every timepoint.
\<close>

theorem per_region_loop_raises_nothing:
  assumes "wf_ndarray data" "wf_ndarray seed_data"
    and "shape0 data = shape0 seed_data" "shape1 seed_data = 1"
    and "mask_check seed_data msk = None"
    and "select_rois seed_data roi_label = Inr rois"
  shows "raised (run_ciftify_meants data seed_data msk roi_label False want_labels) = None
     \<and> (\<exists>out.
          outputcsv (run_ciftify_meants data seed_data msk roi_label False want_labels) = Some out
          \<and> length out = length rois
          \<and> (\<forall>i<length rois.
                {s \<in> set (mask_indices data msk). seed_value seed_data s = rois ! i} = {} \<longrightarrow>
                out ! i = replicate (shape1 data) NaN))"
proof -
  let ?mi = "mask_indices data msk"
  let ?out = "map (roi_row data seed_data ?mi) rois"
  have bound: "set ?mi \<subseteq> {..<shape0 seed_data}"
    using mask_indices_bound [of data msk] assms(1,3) by (simp add: wf_length_cells)
  have sel: "set (idxx seed_data ?mi roi) = {s \<in> set ?mi. seed_value seed_data s = roi}" for roi
    using assms(2,4) bound by (rule set_idxx_one_column)
  have run: "run_ciftify_meants data seed_data msk roi_label False want_labels =
       \<lparr>outputcsv = Some ?out, outputlabels = (if want_labels then Some rois else None),
        raised = None\<rparr>"
    by (simp add: run_ciftify_meants_def compute_per_region [OF assms(3-5)] assms(6))
  have "?out ! i = replicate (shape1 data) NaN"
    if "i < length rois" "{s \<in> set ?mi. seed_value seed_data s = rois ! i} = {}" for i
  proof -
    have "set (idxx seed_data ?mi (rois ! i)) = {}"
      unfolding sel by (rule that(2))
    then have "idxx seed_data ?mi (rois ! i) = []"
      by simp
    with that(1) show ?thesis
      by (simp add: roi_row_empty)
  qed
  then show ?thesis
    by (simp add: run)
qed

theorem per_region_loop_raises_nothing_witness:
  "raised (run_ciftify_meants data_3 seed_012 (Some mask_111) None False False) = None
   \<and> (\<exists>out. outputcsv (run_ciftify_meants data_3 seed_012 (Some mask_111) None False False)
                = Some out
              \<and> length out = 2 \<and> out ! 1 = [NaN, NaN])"
proof -
  have h: "wf_ndarray data_3" "wf_ndarray seed_012" "shape0 data_3 = shape0 seed_012"
    "shape1 seed_012 = 1" "mask_check seed_012 (Some mask_111) = None"
    "select_rois seed_012 None = Inr [1, 2]"
    by (simp_all add: data_3_def seed_012_def mask_111_def eval_defs)
  have mi: "mask_indices data_3 (Some mask_111) = [0, 1]"
    by (simp add: data_3_def mask_111_def eval_defs)
  have "\<forall>s\<in>set (mask_indices data_3 (Some mask_111)). seed_value seed_012 s \<noteq> [1, 2] ! 1"
    by (simp add: mi seed_012_def seed_value_def)
  then have empty: "{s \<in> set (mask_indices data_3 (Some mask_111)).
                 seed_value seed_012 s = [1, 2] ! 1} = {}"
    by blast
  from per_region_loop_raises_nothing [OF h, of False]
  obtain out where r: "raised (run_ciftify_meants data_3 seed_012 (Some mask_111) None False False)
      = None"
    and o: "outputcsv (run_ciftify_meants data_3 seed_012 (Some mask_111) None False False)
      = Some out"
    and len: "length out = length [1, 2 :: real]"
    and rows: "\<forall>i<length [1, 2 :: real].
                {s \<in> set (mask_indices data_3 (Some mask_111)).
                   seed_value seed_012 s = [1, 2] ! i} = {} \<longrightarrow>
                out ! i = replicate (shape1 data_3) NaN"
    by blast
  have i: "(1::nat) < length [1, 2 :: real]" by simp
  from rows [THEN spec, of 1, THEN mp, OF i, THEN mp, OF empty]
  have "out ! 1 = [NaN, NaN]"
    by (simp add: data_3_def numeral_2_eq_2)
  with r o len show ?thesis by auto
qed

subsection \<open>Removing a degenerate sample\<close>

lemma length_cells_remove_row:
  "j < length (cells a) \<Longrightarrow> length (cells (remove_row j a)) = length (cells a) - 1"
  by (auto simp: remove_row_def)

lemma nth_cells_remove_row:
  assumes "j < length (cells a)" "i < length (cells a) - 1"
  shows "cells (remove_row j a) ! i = cells a ! skip j i"
  using assms by (auto simp: remove_row_def skip_def nth_append min_def)

lemma skip_less: "j < n \<Longrightarrow> skip j i < n \<longleftrightarrow> i < n - 1"
  by (auto simp: skip_def)

lemma filter_skip:
  assumes "j < n" "\<not> Q j"
  shows "map (skip j) (filter (\<lambda>i. Q (skip j i)) [0..<n - 1]) = filter Q [0..<n]"
proof -
  have "filter (\<lambda>i. Q (skip j i)) [0..<j] = filter Q [0..<j]"
    by (rule filter_cong) (auto simp: skip_def)
  moreover have "map (skip j) (filter Q [0..<j]) = filter Q [0..<j]"
    by (rule map_idI) (auto simp: skip_def)
  ultimately have low: "map (skip j) (filter (\<lambda>i. Q (skip j i)) [0..<j]) = filter Q [0..<j]"
    by simp
  have "filter (\<lambda>i. Q (skip j i)) [j..<n - 1] = filter (\<lambda>i. Q (Suc i)) [j..<n - 1]"
    by (rule filter_cong) (auto simp: skip_def)
  moreover have "map (skip j) (filter (\<lambda>i. Q (Suc i)) [j..<n - 1]) =
      map Suc (filter (\<lambda>i. Q (Suc i)) [j..<n - 1])"
    by (rule map_cong) (auto simp: skip_def)
  ultimately have "map (skip j) (filter (\<lambda>i. Q (skip j i)) [j..<n - 1]) =
      map Suc (filter (\<lambda>i. Q (Suc i)) [j..<n - 1])"
    by simp
  also have "\<dots> = filter Q (map Suc [j..<n - 1])"
    by (simp add: filter_map o_def)
  also have "\<dots> = filter Q [Suc j..<n]"
    using assms(1) by (simp add: map_Suc_upt)
  finally have high:
    "map (skip j) (filter (\<lambda>i. Q (skip j i)) [j..<n - 1]) = filter Q [Suc j..<n]" .
  have "[0..<j + (n - 1 - j)] = [0..<j] @ [j..<j + (n - 1 - j)]"
    by (rule upt_add_eq_append) simp
  then have "[0..<n - 1] = [0..<j] @ [j..<n - 1]"
    using assms(1) by simp
  moreover have "[0..<j + (n - j)] = [0..<j] @ [j..<j + (n - j)]"
    by (rule upt_add_eq_append) simp
  then have "[0..<n] = [0..<j] @ j # [Suc j..<n]"
    using assms(1) by (simp add: upt_conv_Cons)
  ultimately show ?thesis
    using assms(2) low high by simp
qed

lemma valid_sample_remove_row:
  assumes "j < length (cells data)" "i < length (cells data) - 1"
    and "\<forall>mask_data. msk = Some mask_data \<longrightarrow> j < length (cells mask_data)"
  shows "valid_sample (remove_row j data) (map_option (remove_row j) msk) i =
     valid_sample data msk (skip j i)"
proof (cases msk)
  case None
  then show ?thesis
    using assms(1,2) by (simp add: valid_sample_def nth_cells_remove_row)
next
  case (Some mask_data)
  with assms(3) have j: "j < length (cells mask_data)" by simp
  show ?thesis
  proof (cases "i < length (cells mask_data) - 1")
    case True
    with j Some assms(1,2) show ?thesis
      by (simp add: valid_sample_def nth_cells_remove_row length_cells_remove_row skip_less)
  next
    case False
    with j Some show ?thesis
      by (simp add: valid_sample_def length_cells_remove_row skip_less)
  qed
qed

lemma mask_indices_remove_row:
  assumes "j < length (cells data)" "\<not> valid_sample data msk j"
    and "\<forall>mask_data. msk = Some mask_data \<longrightarrow> j < length (cells mask_data)"
  shows "map (skip j) (mask_indices (remove_row j data) (map_option (remove_row j) msk)) =
     mask_indices data msk"
proof -
  let ?n = "length (cells data)"
  have "mask_indices (remove_row j data) (map_option (remove_row j) msk) =
      filter (valid_sample (remove_row j data) (map_option (remove_row j) msk)) [0..<?n - 1]"
    using assms(1) by (simp add: mask_indices_filter length_cells_remove_row)
  also have "\<dots> = filter (\<lambda>i. valid_sample data msk (skip j i)) [0..<?n - 1]"
    by (rule filter_cong) (use assms(1,3) in \<open>simp_all add: valid_sample_remove_row\<close>)
  finally have "map (skip j) (mask_indices (remove_row j data) (map_option (remove_row j) msk)) =
      map (skip j) (filter (\<lambda>i. valid_sample data msk (skip j i)) [0..<?n - 1])"
    by (rule arg_cong)
  also have "\<dots> = filter (valid_sample data msk) [0..<?n]"
    using assms(1,2) by (rule filter_skip)
  finally show ?thesis
    by (simp add: mask_indices_filter)
qed

lemma take_rows_remove_row:
  assumes "j < length (cells a)" "set is \<subseteq> {..<length (cells a) - 1}"
  shows "take_rows (remove_row j a) is = take_rows a (map (skip j) is)"
  unfolding take_rows_def map_map o_def
  by (rule map_cong) (use assms in \<open>auto simp: nth_cells_remove_row\<close>)

lemma np_unique_sorted_distinct: "sorted xs \<Longrightarrow> distinct xs \<Longrightarrow> np_unique xs = xs"
  by (metis set_np_unique sorted_np_unique distinct_np_unique sorted_distinct_set_unique)

lemma idxx_filter:
  assumes "sorted mi" "distinct mi"
  shows "idxx seed_data mi roi =
     filter (\<lambda>s. s < length (cells seed_data) \<and> roi \<in> set (cells seed_data ! s)) mi"
  using assms
  by (auto simp: idxx_def intersect1d_def np_unique_sorted_distinct set_np_where0
      intro!: filter_cong)

lemma idxx_remove_row:
  assumes "j < length (cells seed_data)" "sorted mi'" "distinct mi'"
    and "sorted (map (skip j) mi')" "distinct (map (skip j) mi')"
  shows "map (skip j) (idxx (remove_row j seed_data) mi' roi) =
     idxx seed_data (map (skip j) mi') roi"
proof -
  have "filter (\<lambda>s. s < length (cells (remove_row j seed_data))
                   \<and> roi \<in> set (cells (remove_row j seed_data) ! s)) mi' =
      filter (\<lambda>s. skip j s < length (cells seed_data)
                   \<and> roi \<in> set (cells seed_data ! skip j s)) mi'"
    by (rule filter_cong)
       (use assms(1) in \<open>auto simp: length_cells_remove_row nth_cells_remove_row skip_less\<close>)
  then show ?thesis
    using assms by (simp add: idxx_filter filter_map o_def)
qed

text \<open>Two sufficient conditions for the provisos of the removal theorem below: the checks of
  the mask branch and the label list depend on the seed only through its set of distinct
  values and through the set of distinct values of seed times mask.\<close>

lemma mask_check_remove_row:
  assumes "j < shape0 seed_data"
    and "\<forall>mask_data. msk = Some mask_data \<longrightarrow> j < shape0 mask_data"
    and "set (ravel (remove_row j seed_data)) = set (ravel seed_data)"
    and "\<forall>mask_data. msk = Some mask_data \<longrightarrow>
           set (np_multiply (remove_row j seed_data) (remove_row j mask_data)) =
           set (np_multiply seed_data mask_data)"
  shows "mask_check (remove_row j seed_data) (map_option (remove_row j) msk) =
     mask_check seed_data msk"
proof (cases msk)
  case None
  then show ?thesis by (simp add: mask_check_def)
next
  case (Some mask_data)
  with assms(2) have "j < shape0 mask_data" by simp
  with assms(1) have "shape0 (remove_row j seed_data) \<noteq> shape0 (remove_row j mask_data)
      \<longleftrightarrow> shape0 seed_data \<noteq> shape0 mask_data"
    by (auto simp: remove_row_def)
  moreover have "np_unique (ravel (remove_row j seed_data)) = np_unique (ravel seed_data)"
    using assms(3) by (rule np_unique_cong)
  moreover have "np_unique (np_multiply (remove_row j seed_data) (remove_row j mask_data)) =
      np_unique (np_multiply seed_data mask_data)"
    by (rule np_unique_cong) (use assms(4) Some in simp)
  ultimately show ?thesis
    using Some by (simp add: mask_check_def n_seeds_def)
qed

lemma select_rois_remove_row:
  assumes "set (ravel (remove_row j seed_data)) = set (ravel seed_data)"
  shows "select_rois (remove_row j seed_data) roi_label = select_rois seed_data roi_label"
  by (cases roi_label) (simp_all add: select_rois_def np_unique_cong [OF assms])

lemma shape1_remove_row: "shape1 (remove_row j a) = shape1 a"
  by (simp add: remove_row_def)

lemma aggregate_remove_row:
  assumes jd: "j < length (cells data)" and js: "j < length (cells seed_data)"
    and len: "length (cells seed_data) = length (cells data)"
    and nv: "\<not> valid_sample data msk j"
    and jm: "\<forall>mask_data. msk = Some mask_data \<longrightarrow> j < length (cells mask_data)"
    and labels: "\<not> weighted \<longrightarrow>
        select_rois (remove_row j seed_data) roi_label = select_rois seed_data roi_label"
  shows "aggregate (remove_row j data) (remove_row j seed_data)
       (mask_indices (remove_row j data) (map_option (remove_row j) msk)) roi_label weighted =
     aggregate data seed_data (mask_indices data msk) roi_label weighted"
proof -
  let ?mi' = "mask_indices (remove_row j data) (map_option (remove_row j) msk)"
  let ?mi = "mask_indices data msk"
  have mi: "map (skip j) ?mi' = ?mi"
    using jd nv jm by (rule mask_indices_remove_row)
  have bound: "set ?mi' \<subseteq> {..<length (cells data) - 1}"
    using mask_indices_bound [of "remove_row j data" "map_option (remove_row j) msk"] jd
    by (simp add: length_cells_remove_row)
  have rows_data: "take_rows (remove_row j data) ?mi' = take_rows data ?mi"
    using jd bound by (simp add: take_rows_remove_row mi)
  have rows_seed: "take_rows (remove_row j seed_data) ?mi' = take_rows seed_data ?mi"
    using js bound len by (simp add: take_rows_remove_row mi)
  have roi: "roi_row (remove_row j data) (remove_row j seed_data) ?mi' roi =
      roi_row data seed_data ?mi roi" for roi
  proof -
    have "set (idxx (remove_row j seed_data) ?mi' roi) \<subseteq> {..<length (cells data) - 1}"
      using bound by (auto simp: set_idxx)
    with jd have "take_rows (remove_row j data) (idxx (remove_row j seed_data) ?mi' roi) =
        take_rows data (map (skip j) (idxx (remove_row j seed_data) ?mi' roi))"
      by (rule take_rows_remove_row)
    also have "map (skip j) (idxx (remove_row j seed_data) ?mi' roi) =
        idxx seed_data (map (skip j) ?mi') roi"
      using js by (rule idxx_remove_row)
        (simp_all add: mi sorted_mask_indices distinct_mask_indices)
    finally show ?thesis
      by (simp add: roi_row_def mi shape1_remove_row)
  qed
  show ?thesis
  proof (cases weighted)
    case True
    then show ?thesis
      by (simp add: aggregate_def rows_data rows_seed shape1_remove_row)
  next
    case False
    with labels have "select_rois (remove_row j seed_data) roi_label =
        select_rois seed_data roi_label"
      by simp
    with False show ?thesis
      by (simp add: aggregate_def roi split: sum.splits)
  qed
qed

lemma degenerate_not_valid:
  "np_std (cells data ! j) = Val 0 \<or> np_mean (cells data ! j) = Val 0 \<Longrightarrow>
     \<not> valid_sample data msk j"
  by (auto simp: valid_sample_def)

text \<open>
  Claim C9, as stated: removing a sample with standard deviation 0 or mean 0 never changes
  the output. It can: in \<open>data_3\<close> the constant sample 2 is the only one of label 2. With
  it the output has a second row (of NaN) for label 2; without it label 2 is no longer a
  seed value and the output has one row.
\<close>

theorem degenerate_sample_changes_labels:
  "np_std (cells data_3 ! 2) = Val 0
   \<and> run_ciftify_meants data_3 seed_012 None None False False =
       \<lparr>outputcsv = Some [[Val 3, Val 5], [NaN, NaN]], outputlabels = None, raised = None\<rparr>
   \<and> run_ciftify_meants (remove_row 2 data_3) (remove_row 2 seed_012) None None False False =
       \<lparr>outputcsv = Some [[Val 3, Val 5]], outputlabels = None, raised = None\<rparr>"
  by (simp add: data_3_def seed_012_def remove_row_def eval_defs)

text \<open>
  Claim C9, amended. Removing a sample \<open>j\<close> whose time series has standard deviation 0 or
  mean 0 (its row in the functional, seed and mask arrays) leaves the whole outcome of the
  run unchanged, provided that, in per-region mean mode, the removal leaves the selected
  label list (lines 219 to 225) unchanged and, when a mask is given, it leaves the verdict
  of the checks of the mask branch (lines 206 to 212) unchanged. In weighted mode without a
  mask there is no proviso.
\<close>

theorem degenerate_sample_removable:
  assumes wf: "wf_ndarray data" "wf_ndarray seed_data"
      "\<forall>mask_data. msk = Some mask_data \<longrightarrow> wf_ndarray mask_data \<and> j < shape0 mask_data"
    and j: "j < shape0 data" "j < shape0 seed_data"
    and degenerate: "np_std (cells data ! j) = Val 0 \<or> np_mean (cells data ! j) = Val 0"
    and labels: "\<not> weighted \<longrightarrow>
        select_rois (remove_row j seed_data) roi_label = select_rois seed_data roi_label"
    and verdict: "mask_check (remove_row j seed_data) (map_option (remove_row j) msk) =
        mask_check seed_data msk"
  shows "run_ciftify_meants (remove_row j data) (remove_row j seed_data)
       (map_option (remove_row j) msk) roi_label weighted want_labels =
     run_ciftify_meants data seed_data msk roi_label weighted want_labels"
proof -
  have shapes: "shape0 (remove_row j data) \<noteq> shape0 (remove_row j seed_data)
      \<longleftrightarrow> shape0 data \<noteq> shape0 seed_data"
    using j by (auto simp: remove_row_def)
  have agg: "aggregate (remove_row j data) (remove_row j seed_data)
       (mask_indices (remove_row j data) (map_option (remove_row j) msk)) roi_label weighted =
     aggregate data seed_data (mask_indices data msk) roi_label weighted"
    if "shape0 data = shape0 seed_data"
  proof (rule aggregate_remove_row)
    show "j < length (cells data)" "j < length (cells seed_data)"
      using wf(1,2) j by (simp_all add: wf_length_cells)
    show "length (cells seed_data) = length (cells data)"
      using wf(1,2) that by (simp add: wf_length_cells)
    show "\<not> valid_sample data msk j"
      using degenerate by (rule degenerate_not_valid)
    show "\<forall>mask_data. msk = Some mask_data \<longrightarrow> j < length (cells mask_data)"
      using wf(3) by (auto simp: wf_length_cells)
    show "\<not> weighted \<longrightarrow>
        select_rois (remove_row j seed_data) roi_label = select_rois seed_data roi_label"
      by (rule labels)
  qed
  have "compute (remove_row j data) (remove_row j seed_data) (map_option (remove_row j) msk)
       roi_label weighted = compute data seed_data msk roi_label weighted"
  proof (cases "shape0 data = shape0 seed_data")
    case True
    with agg show ?thesis
      using shapes by (simp add: compute_def shape1_remove_row verdict split: option.splits)
  next
    case False
    with shapes show ?thesis
      by (simp add: compute_def)
  qed
  then show ?thesis
    by (simp add: run_ciftify_meants_def)
qed

theorem degenerate_sample_removable_witness:
  "seed_value seed_B 1 = 1 \<and> seed_value mask_1111 1 = 1
   \<and> run_ciftify_meants (remove_row 1 data_5) (remove_row 1 seed_B)
       (Some (remove_row 1 mask_1111)) None False True =
     run_ciftify_meants data_5 seed_B (Some mask_1111) None False True
   \<and> run_ciftify_meants data_5 seed_B (Some mask_1111) None False True =
       \<lparr>outputcsv = Some [[Val 3, Val 5], [Val 4, Val 6]], outputlabels = Some [1, 2],
        raised = None\<rparr>
   \<and> set (ravel (remove_row 1 seed_W)) \<noteq> set (ravel seed_W)
   \<and> run_ciftify_meants (remove_row 1 data_5) (remove_row 1 seed_W) None None True False =
     run_ciftify_meants data_5 seed_W None None True False
   \<and> run_ciftify_meants data_5 seed_W None None True False =
       \<lparr>outputcsv = Some [[Val 3, Val (59 / 12)]], outputlabels = None, raised = None\<rparr>"
proof -
  have wf: "wf_ndarray data_5" "wf_ndarray seed_B" "wf_ndarray seed_W"
    and j: "1 < shape0 data_5" "1 < shape0 seed_B" "1 < shape0 seed_W"
    and degenerate: "np_std (cells data_5 ! 1) = Val 0 \<or> np_mean (cells data_5 ! 1) = Val 0"
    by (simp_all add: data_5_def seed_B_def seed_W_def wf_ndarray_def np_std_def np_mean_def)
  have m: "\<forall>mask_data. Some mask_1111 = Some mask_data \<longrightarrow>
       wf_ndarray mask_data \<and> 1 < shape0 mask_data"
    by (simp add: mask_1111_def wf_ndarray_def)
  have labels: "\<not> False \<longrightarrow>
      select_rois (remove_row 1 seed_B) None = select_rois seed_B None"
    by (simp add: seed_B_def remove_row_def eval_defs)
  have verdict: "mask_check (remove_row 1 seed_B) (map_option (remove_row 1) (Some mask_1111)) =
      mask_check seed_B (Some mask_1111)"
    by (simp add: seed_B_def mask_1111_def remove_row_def eval_defs)
  have a: "run_ciftify_meants (remove_row 1 data_5) (remove_row 1 seed_B)
       (Some (remove_row 1 mask_1111)) None False True =
     run_ciftify_meants data_5 seed_B (Some mask_1111) None False True"
    using degenerate_sample_removable [OF wf(1,2) m j(1,2) degenerate labels verdict, of True]
    by simp
  have n: "\<forall>mask_data. None = Some mask_data \<longrightarrow>
       wf_ndarray mask_data \<and> 1 < shape0 mask_data"
    by simp
  have labels_w: "\<not> True \<longrightarrow>
      select_rois (remove_row 1 seed_W) None = select_rois seed_W None"
    by simp
  have verdict_w: "mask_check (remove_row 1 seed_W) (map_option (remove_row 1) None) =
      mask_check seed_W None"
    by (simp add: mask_check_def)
  have b: "run_ciftify_meants (remove_row 1 data_5) (remove_row 1 seed_W) None None True False =
     run_ciftify_meants data_5 seed_W None None True False"
    using degenerate_sample_removable [OF wf(1,3) n j(1,3) degenerate labels_w verdict_w, of False]
    by simp
  have c: "run_ciftify_meants data_5 seed_B (Some mask_1111) None False True =
       \<lparr>outputcsv = Some [[Val 3, Val 5], [Val 4, Val 6]], outputlabels = Some [1, 2],
        raised = None\<rparr>"
    by (simp add: data_5_def seed_B_def mask_1111_def eval_defs)
  have d: "run_ciftify_meants data_5 seed_W None None True False =
       \<lparr>outputcsv = Some [[Val 3, Val (59 / 12)]], outputlabels = None, raised = None\<rparr>"
    by (simp add: data_5_def seed_W_def eval_defs)
  have "1 / 2 \<in> set (ravel seed_W)" "1 / 2 \<notin> set (ravel (remove_row 1 seed_W))"
    by (simp_all add: seed_W_def remove_row_def ravel_def)
  then have e: "set (ravel (remove_row 1 seed_W)) \<noteq> set (ravel seed_W)"
    by blast
  have f: "seed_value seed_B 1 = 1" "seed_value mask_1111 1 = 1"
    by (simp_all add: seed_B_def mask_1111_def seed_value_def)
  from a b c d e f show ?thesis by simp
qed

end
